theory Spec2Isabelle
  imports Main "HOL-Library.Word"
begin

section \<open>The relay core of peer-calls: wrtc/tracks/peer.go\<close>

text \<open>
  A shallow embedding of \<^verbatim>\<open>src/server-go/wrtc/tracks/peer.go\<close>. The Peer is a record,
  every method takes the state of the world and returns the new one, the transport
  (the \<^verbatim>\<open>PeerConnection\<close> interface) is a parameter whose answers may depend on the calls
  made so far, and the two goroutines of a relay are tasks of the state that are advanced
  by events (a tick of the ticker, packets arriving on the remote track).
\<close>

subsection \<open>Errors\<close>

text \<open>
  A Go \<^verbatim>\<open>error\<close> value. \<^verbatim>\<open>io.ErrClosedPipe\<close> is a sentinel that the code compares by
  identity, so it is a constructor of its own; every other error carries its message.
\<close>

datatype error = ErrClosedPipe | Err string

fun Error :: "error \<Rightarrow> string" where
  "Error ErrClosedPipe = ''io: read/write on closed pipe''"
| "Error (Err msg) = msg"

subsection \<open>Tracks, senders, RTCP packets, ICE states\<close>

text \<open>
  A \<^verbatim>\<open>*webrtc.Track\<close>. The field \<open>addr\<close> is the pointer: the sender map is keyed by
  it. The source's interface leaves the two string parameters of \<^verbatim>\<open>NewTrack\<close> unnamed;
  the specification calls them kind and label.
\<close>

record Track =
  addr :: nat
  ID :: string
  PayloadType :: "8 word"
  SSRC :: "32 word"
  kind :: string
  label :: string

type_synonym RTPSender = nat

text \<open>
  The packets of package \<^verbatim>\<open>rtcp\<close> that a caller of \<^verbatim>\<open>WriteRTCP\<close> could build. The
  source builds \<^verbatim>\<open>PictureLossIndication\<close> only, with \<^verbatim>\<open>MediaSSRC\<close> set and
  \<^verbatim>\<open>SenderSSRC\<close> left at its zero value.
\<close>

datatype rtcp_Packet =
    PictureLossIndication (SenderSSRC: "32 word") (MediaSSRC: "32 word")
  | FullIntraRequest "32 word" "32 word"
  | TransportLayerNack "32 word" "32 word" "16 word list"
  | ReceiverReport "32 word"
  | SenderReport "32 word"
  | Goodbye "32 word list"

datatype ICEConnectionState =
    ICEConnectionStateNew
  | ICEConnectionStateChecking
  | ICEConnectionStateConnected
  | ICEConnectionStateCompleted
  | ICEConnectionStateDisconnected
  | ICEConnectionStateFailed
  | ICEConnectionStateClosed

fun ICEConnectionState_String :: "ICEConnectionState \<Rightarrow> string" where
  "ICEConnectionState_String ICEConnectionStateNew = ''new''"
| "ICEConnectionState_String ICEConnectionStateChecking = ''checking''"
| "ICEConnectionState_String ICEConnectionStateConnected = ''connected''"
| "ICEConnectionState_String ICEConnectionStateCompleted = ''completed''"
| "ICEConnectionState_String ICEConnectionStateDisconnected = ''disconnected''"
| "ICEConnectionState_String ICEConnectionStateFailed = ''failed''"
| "ICEConnectionState_String ICEConnectionStateClosed = ''closed''"

subsection \<open>The transport\<close>

text \<open>The calls the Peer makes on its \<^verbatim>\<open>PeerConnection\<close>, in the order it makes them.\<close>

datatype pcCall =
    AddTrackCall Track
  | RemoveTrackCall RTPSender
  | OnTrackCall
  | OnICEConnectionStateChangeCall
  | WriteRTCPCall "rtcp_Packet list"
  | NewTrackCall "8 word" "32 word" string string

text \<open>
  The behaviour of a transport: what each method answers, given the calls made before.
  \<open>pcNewTrack\<close> answers an error, or the pointer and the id of the track it creates.
\<close>

record PeerConnection =
  pcAddTrack :: "pcCall list \<Rightarrow> Track \<Rightarrow> error + RTPSender"
  pcRemoveTrack :: "pcCall list \<Rightarrow> RTPSender \<Rightarrow> error option"
  pcWriteRTCP :: "pcCall list \<Rightarrow> rtcp_Packet list \<Rightarrow> error option"
  pcNewTrack :: "pcCall list \<Rightarrow> 8 word \<Rightarrow> 32 word \<Rightarrow> string \<Rightarrow> string \<Rightarrow> error + nat \<times> string"

text \<open>
  Modelled from the spec: the body of the transport's \<^verbatim>\<open>NewTrack\<close>, which is the
  WebRTC engine's and not in the source. Section 4.1 of the specification: it creates a
  new local track given payload type, SSRC, kind and label, or fails.
\<close>

definition NewTrack :: "PeerConnection \<Rightarrow> pcCall list \<Rightarrow> 8 word \<Rightarrow> 32 word \<Rightarrow> string \<Rightarrow> string
    \<Rightarrow> error + Track" where
  "NewTrack pc calls pt ssrc k l =
     (case pcNewTrack pc calls pt ssrc k l of
        Inl e \<Rightarrow> Inl e
      | Inr (a, i) \<Rightarrow>
          Inr \<lparr>addr = a, ID = i, PayloadType = pt, SSRC = ssrc, kind = k, label = l\<rparr>)"

subsection \<open>The relay of one remote track\<close>

text \<open>A goroutine is running, has returned, or has panicked.\<close>

datatype task = Running | Returned | Panicked

text \<open>What the copy task did on the two tracks, in order.\<close>

datatype trackOp =
    ReadOp "error + 8 word list"
  | WriteOp "8 word list" "error option"

text \<open>
  What the outside answers to one iteration of the copy loop: the read of the remote
  track fails, or it delivers a packet and the write to the local track then answers
  with an error or none.
\<close>

datatype copyInput =
    ReadFails error
  | ReadGives "8 word list" "error option"

record relay =
  remoteTrack :: Track
  localTrack :: Track
  tickerInterval :: int
  tickerActive :: bool
  copyTask :: task
  rtpBuf :: "8 word list"
  trackOps :: "trackOp list"

subsection \<open>The Peer and the world around it\<close>

record Peer =
  clientID :: string
  localTracks :: "Track list"
  rtpSenderByTrack :: "nat \<rightharpoonup> RTPSender"

datatype callback = onTrack string Track | onClose string

record world =
  peer :: Peer
  pcCalls :: "pcCall list"
  logged :: "string list"
  notified :: "callback list"
  relays :: "relay list"

text \<open>\<^verbatim>\<open>time.Second\<close>, in nanoseconds, and the constant of the source.\<close>

definition Second :: int where
  "Second = 1000000000"

definition rtcpPLIInterval :: int where
  "rtcpPLIInterval = Second * 3"

subsection \<open>Construction and accessors\<close>

definition NewPeer :: "string \<Rightarrow> world" where
  "NewPeer cid =
     \<lparr>peer = \<lparr>clientID = cid, localTracks = [], rtpSenderByTrack = Map.empty\<rparr>,
      pcCalls = [OnICEConnectionStateChangeCall, OnTrackCall],
      logged = [], notified = [], relays = []\<rparr>"

definition ClientID :: "world \<Rightarrow> string" where
  "ClientID w = clientID (peer w)"

definition Tracks :: "world \<Rightarrow> Track list" where
  "Tracks w = localTracks (peer w)"

subsection \<open>AddTrack and RemoveTrack\<close>

definition AddTrack :: "PeerConnection \<Rightarrow> Track \<Rightarrow> world \<Rightarrow> error option \<times> world" where
  "AddTrack pc track w =
     (let w1 = w\<lparr>pcCalls := pcCalls w @ [AddTrackCall track]\<rparr> in
      case pcAddTrack pc (pcCalls w) track of
        Inl err \<Rightarrow>
          (Some (Err (''Error adding track: '' @ ID track @ '' to peer clientID: ''
                      @ clientID (peer w))), w1)
      | Inr rtpSender \<Rightarrow>
          (None,
           w1\<lparr>peer := (peer w)\<lparr>rtpSenderByTrack :=
                 (rtpSenderByTrack (peer w))(addr track \<mapsto> rtpSender)\<rparr>\<rparr>))"

definition RemoveTrack :: "PeerConnection \<Rightarrow> Track \<Rightarrow> world \<Rightarrow> error option \<times> world" where
  "RemoveTrack pc track w =
     (case rtpSenderByTrack (peer w) (addr track) of
        None \<Rightarrow>
          (Some (Err (''Cannot find sender for track: '' @ ID track @ '', clientID: ''
                      @ clientID (peer w))), w)
      | Some rtpSender \<Rightarrow>
          (pcRemoveTrack pc (pcCalls w) rtpSender,
           w\<lparr>pcCalls := pcCalls w @ [RemoveTrackCall rtpSender]\<rparr>))"

subsection \<open>The ICE state handler\<close>

definition handleICEConnectionStateChange :: "ICEConnectionState \<Rightarrow> world \<Rightarrow> world" where
  "handleICEConnectionStateChange connectionState w =
     (let w1 = w\<lparr>logged := logged w @
                 [''Peer connection state changed, clientID: '' @ clientID (peer w)
                  @ '', state: '' @ ICEConnectionState_String connectionState]\<rparr> in
      if connectionState = ICEConnectionStateClosed \<or>
         connectionState = ICEConnectionStateDisconnected \<or>
         connectionState = ICEConnectionStateFailed
      then w1\<lparr>notified := notified w1 @ [onClose (clientID (peer w))]\<rparr>
      else w1)"

subsection \<open>Starting a relay\<close>

text \<open>
  \<^verbatim>\<open>startCopyingTrack\<close> up to its return: the local track is created, and the ticker and
  the two goroutines are started. The goroutines' bodies are \<open>tick\<close> and \<open>copyLoop\<close>
  below.
\<close>

definition startCopyingTrack :: "PeerConnection \<Rightarrow> Track \<Rightarrow> world \<Rightarrow> (error + Track) \<times> world" where
  "startCopyingTrack pc remote w =
     (let w1 = w\<lparr>logged := logged w @
                 [''startCopyingTrack: '' @ ID remote @ '' for peer clientID: ''
                  @ clientID (peer w)],
               pcCalls := pcCalls w @
                 [NewTrackCall (PayloadType remote) (SSRC remote) ''video'' ''pion'']\<rparr> in
      case NewTrack pc (pcCalls w) (PayloadType remote) (SSRC remote) ''video'' ''pion'' of
        Inl err \<Rightarrow>
          (Inl (Err (''startCopyingTrack: error creating new track, trackID: '' @ ID remote
                     @ '', clientID: '' @ clientID (peer w) @ '', error: '' @ Error err)),
           w1)
      | Inr local \<Rightarrow>
          (Inr local,
           w1\<lparr>logged := logged w1 @
                 [''startCopyingTrack: remote track '' @ ID remote @ '' to new local track: ''
                  @ ID local @ '' for clientID: '' @ clientID (peer w)],
               relays := relays w @
                 [\<lparr>remoteTrack = remote, localTrack = local,
                   tickerInterval = rtcpPLIInterval, tickerActive = True,
                   copyTask = Running, rtpBuf = replicate 1400 0, trackOps = []\<rparr>]\<rparr>))"

definition handleTrack :: "PeerConnection \<Rightarrow> Track \<Rightarrow> world \<Rightarrow> world" where
  "handleTrack pc remote w =
     (let w0 = w\<lparr>logged := logged w @
                 [''handleTrack '' @ ID remote @ '' for clientID: '' @ clientID (peer w)]\<rparr> in
      case startCopyingTrack pc remote w0 of
        (Inl err, w1) \<Rightarrow>
          w1\<lparr>logged := logged w1 @ [''Error copying remote track: '' @ Error err]\<rparr>
      | (Inr local, w1) \<Rightarrow>
          w1\<lparr>peer := (peer w1)\<lparr>localTracks := localTracks (peer w1) @ [local]\<rparr>,
             notified := notified w1 @ [onTrack (clientID (peer w1)) local]\<rparr>)"

subsection \<open>The periodic task\<close>

text \<open>
  One firing of the ticker, received by the first goroutine: the body of
  \<^verbatim>\<open>for range ticker.C\<close>. It answers the packets written, and the line logged if any.
\<close>

definition tick :: "PeerConnection \<Rightarrow> string \<Rightarrow> relay \<Rightarrow> pcCall list \<Rightarrow> pcCall list \<times> string list" where
  "tick pc cid r calls =
     (let pkts = [PictureLossIndication 0 (SSRC (remoteTrack r))] in
      (calls @ [WriteRTCPCall pkts],
       case pcWriteRTCP pc calls pkts of
         None \<Rightarrow> []
       | Some err \<Rightarrow>
           [''Error sending rtcp PLI for local track: '' @ ID (localTrack r)
            @ '' for clientID: '' @ cid @ '': '' @ Error err]))"

subsection \<open>The copy task\<close>

text \<open>
  The deferred \<^verbatim>\<open>ticker.Stop()\<close> runs when the goroutine returns, and when it panics.
\<close>

definition returned :: "relay \<Rightarrow> relay" where
  "returned r = r\<lparr>copyTask := Returned, tickerActive := False\<rparr>"

definition panicked :: "relay \<Rightarrow> relay" where
  "panicked r = r\<lparr>copyTask := Panicked, tickerActive := False\<rparr>"

text \<open>
  The \<^verbatim>\<open>for\<close> loop of the second goroutine, run on the answers of the outside. Each
  iteration takes one answer; with no answer left the task is blocked in \<^verbatim>\<open>Read\<close>
  and still running. A read that reports more bytes than the buffer holds makes the slice
  \<^verbatim>\<open>rtpBuf[:i]\<close> panic. The result is the relay and the lines logged.
\<close>

fun copyLoop :: "string \<Rightarrow> copyInput list \<Rightarrow> relay \<Rightarrow> relay \<times> string list" where
  "copyLoop cid [] r = (r, [])"
| "copyLoop cid (ReadFails err # rest) r =
     (returned (r\<lparr>trackOps := trackOps r @ [ReadOp (Inl err)]\<rparr>),
      [''Error reading from remote track: '' @ ID (remoteTrack r) @ '' for clientID: ''
       @ cid @ '': '' @ Error err])"
| "copyLoop cid (ReadGives pkt res # rest) r =
     (let i = length pkt;
          r1 = r\<lparr>rtpBuf := take (length (rtpBuf r)) pkt @ drop i (rtpBuf r),
                 trackOps := trackOps r @ [ReadOp (Inr pkt)]\<rparr> in
      if i > length (rtpBuf r1) then (panicked r1, [])
      else
        (let r2 = r1\<lparr>trackOps := trackOps r1 @ [WriteOp (take i (rtpBuf r1)) res]\<rparr> in
         case res of
           None \<Rightarrow> copyLoop cid rest r2
         | Some err \<Rightarrow>
             if err \<noteq> ErrClosedPipe
             then (returned r2,
                   [''Error writing to local track: '' @ ID (localTrack r) @ '' for clientID: ''
                    @ cid @ '': '' @ Error err])
             else copyLoop cid rest r2))"

text \<open>The packets the local track took: the writes that answered no error.\<close>

fun delivered :: "trackOp list \<Rightarrow> 8 word list list" where
  "delivered [] = []"
| "delivered (WriteOp bs None # ops) = bs # delivered ops"
| "delivered (op # ops) = delivered ops"

text \<open>The writes the copy task made on the local track, whatever they answered.\<close>

fun writes :: "trackOp list \<Rightarrow> 8 word list list" where
  "writes [] = []"
| "writes (WriteOp bs res # ops) = bs # writes ops"
| "writes (op # ops) = writes ops"

subsection \<open>Events\<close>

text \<open>
  What can happen to a Peer: a collaborator calls a method, the transport calls a
  handler back, the ticker of relay \<open>n\<close> fires, or the outside answers the copy task of
  relay \<open>n\<close>. A stopped ticker fires no more, and a task that is not running takes no
  answers.
\<close>

datatype event =
    DoAddTrack Track
  | DoRemoveTrack Track
  | ICEConnectionStateChange ICEConnectionState
  | TrackEvent Track
  | TickerFires nat
  | CopyAnswers nat "copyInput list"

fun step :: "PeerConnection \<Rightarrow> world \<Rightarrow> event \<Rightarrow> world" where
  "step pc w (DoAddTrack t) = snd (AddTrack pc t w)"
| "step pc w (DoRemoveTrack t) = snd (RemoveTrack pc t w)"
| "step pc w (ICEConnectionStateChange s) = handleICEConnectionStateChange s w"
| "step pc w (TrackEvent t) = handleTrack pc t w"
| "step pc w (TickerFires n) =
     (if n < length (relays w) \<and> tickerActive (relays w ! n)
      then (case tick pc (clientID (peer w)) (relays w ! n) (pcCalls w) of
              (calls, lines) \<Rightarrow> w\<lparr>pcCalls := calls, logged := logged w @ lines\<rparr>)
      else w)"
| "step pc w (CopyAnswers n ins) =
     (if n < length (relays w) \<and> copyTask (relays w ! n) = Running
      then (case copyLoop (clientID (peer w)) ins (relays w ! n) of
              (r, lines) \<Rightarrow> w\<lparr>relays := (relays w)[n := r], logged := logged w @ lines\<rparr>)
      else w)"

definition run :: "PeerConnection \<Rightarrow> world \<Rightarrow> event list \<Rightarrow> world" where
  "run pc w evs = foldl (step pc) w evs"

text \<open>How often the close notification was given.\<close>

definition closeCount :: "world \<Rightarrow> nat" where
  "closeCount w = length (filter (\<lambda>c. case c of onClose cid \<Rightarrow> True | _ \<Rightarrow> False) (notified w))"

subsection \<open>The RTCP packets written\<close>

fun isPLI :: "rtcp_Packet \<Rightarrow> bool" where
  "isPLI (PictureLossIndication s m) = True"
| "isPLI p = False"

text \<open>A call on the transport that, if it writes RTCP, writes one packet, a PLI.\<close>

fun onePLI :: "pcCall \<Rightarrow> bool" where
  "onePLI (WriteRTCPCall pkts) = (length pkts = 1 \<and> list_all isPLI pkts)"
| "onePLI c = True"

text \<open>
  What every world reached from a new Peer satisfies: the transport was asked to write
  PLI packets only, one per call, and every ticker runs on the interval of the source.
\<close>

definition relayInv :: "world \<Rightarrow> bool" where
  "relayInv w \<longleftrightarrow>
     list_all onePLI (pcCalls w) \<and>
     list_all (\<lambda>r. tickerInterval r = rtcpPLIInterval \<and> length (rtpBuf r) = 1400) (relays w)"

subsection \<open>Fake transports and tracks\<close>

text \<open>
  Two transports to run the Peer against: one whose calls all succeed, one whose calls
  all fail. The tracks are the published track of the specification's scenario (alice,
  SSRC 1111, payload type 96) and a local track of another participant.
\<close>

definition fakePC :: PeerConnection where
  "fakePC =
     \<lparr>pcAddTrack = (\<lambda>calls t. Inr (addr t + 100)),
      pcRemoveTrack = (\<lambda>calls s. None),
      pcWriteRTCP = (\<lambda>calls pkts. None),
      pcNewTrack = (\<lambda>calls pt ssrc k l. Inr (length calls, ''local''))\<rparr>"

definition failingPC :: PeerConnection where
  "failingPC =
     \<lparr>pcAddTrack = (\<lambda>calls t. Inl (Err ''transport failed'')),
      pcRemoveTrack = (\<lambda>calls s. Some (Err ''transport failed'')),
      pcWriteRTCP = (\<lambda>calls pkts. Some (Err ''transport failed'')),
      pcNewTrack = (\<lambda>calls pt ssrc k l. Inl (Err ''transport failed''))\<rparr>"

definition aliceTrack :: Track where
  "aliceTrack =
     \<lparr>addr = 1, ID = ''remote'', PayloadType = 96, SSRC = 1111, kind = ''video'',
      label = ''camera''\<rparr>"

definition bobTrack :: Track where
  "bobTrack =
     \<lparr>addr = 7, ID = ''bob-video'', PayloadType = 100, SSRC = 2222, kind = ''video'',
      label = ''pion''\<rparr>"

text \<open>The world after alice published her track: one relay, started and running.\<close>

definition aliceWorld :: world where
  "aliceWorld = handleTrack fakePC aliceTrack (NewPeer ''alice'')"

section \<open>The sender map: AddTrack and RemoveTrack\<close>

lemma AddTrack_calls: "pcCalls (snd (AddTrack pc t w)) = pcCalls w @ [AddTrackCall t]"
  by (simp add: AddTrack_def Let_def split: sum.split)

lemma RemoveTrack_calls:
  "pcCalls (snd (RemoveTrack pc t w)) =
     (case rtpSenderByTrack (peer w) (addr t) of
        None \<Rightarrow> pcCalls w
      | Some s \<Rightarrow> pcCalls w @ [RemoveTrackCall s])"
  by (simp add: RemoveTrack_def split: option.split)

lemma RemoveTrack_peer: "peer (snd (RemoveTrack pc t w)) = peer w"
  by (simp add: RemoveTrack_def split: option.split)

text \<open>
  C1, as the specification states it: after \<open>RemoveTrack t\<close> the association of \<open>t\<close> is
  gone from the sender map. The code never deletes from the map. Bob's track is added to
  alice's Peer and removed again, both calls succeeding on the transport: the map still
  holds the sender of the track.
\<close>

theorem RemoveTrack_keeps_association:
  "fst (RemoveTrack fakePC bobTrack (snd (AddTrack fakePC bobTrack (NewPeer ''alice'')))) = None \<and>
   rtpSenderByTrack (peer (snd (RemoveTrack fakePC bobTrack
       (snd (AddTrack fakePC bobTrack (NewPeer ''alice'')))))) (addr bobTrack) = Some 107"
  by (simp add: RemoveTrack_def AddTrack_def NewPeer_def fakePC_def bobTrack_def)

text \<open>
  C1, amended: for every track \<open>t\<close> registered in the sender map with sender \<open>s\<close>,
  \<open>RemoveTrack t\<close> asks the transport, once, to remove \<open>s\<close> and returns the outcome of
  that call as its result; the sender map is left as it was, whether the transport call
  succeeds or fails.
\<close>

theorem RemoveTrack_registered:
  assumes "rtpSenderByTrack (peer w) (addr t) = Some s"
  shows "fst (RemoveTrack pc t w) = pcRemoveTrack pc (pcCalls w) s \<and>
         pcCalls (snd (RemoveTrack pc t w)) = pcCalls w @ [RemoveTrackCall s] \<and>
         rtpSenderByTrack (peer (snd (RemoveTrack pc t w))) = rtpSenderByTrack (peer w)"
  using assms by (simp add: RemoveTrack_def)

theorem RemoveTrack_registered_witness:
  "rtpSenderByTrack (peer (snd (AddTrack fakePC bobTrack (NewPeer ''alice'')))) (addr bobTrack)
     = Some 107 \<and>
   fst (RemoveTrack failingPC bobTrack (snd (AddTrack fakePC bobTrack (NewPeer ''alice''))))
     = Some (Err ''transport failed'') \<and>
   pcCalls (snd (RemoveTrack failingPC bobTrack (snd (AddTrack fakePC bobTrack (NewPeer ''alice'')))))
     = [OnICEConnectionStateChangeCall, OnTrackCall, AddTrackCall bobTrack, RemoveTrackCall 107] \<and>
   rtpSenderByTrack (peer (snd (RemoveTrack failingPC bobTrack
       (snd (AddTrack fakePC bobTrack (NewPeer ''alice'')))))) (addr bobTrack) = Some 107"
  using RemoveTrack_registered [of "snd (AddTrack fakePC bobTrack (NewPeer ''alice''))"
      bobTrack 107 failingPC]
  by (simp add: AddTrack_def NewPeer_def fakePC_def failingPC_def bobTrack_def)

text \<open>
  C5: for every track \<open>t\<close> that is not in the sender map, \<open>RemoveTrack t\<close> returns the
  error that no sender was found for the track, and the world is as before: no call was
  made on the transport and the sender map is unchanged.
\<close>

theorem RemoveTrack_unregistered:
  assumes "rtpSenderByTrack (peer w) (addr t) = None"
  shows "RemoveTrack pc t w =
           (Some (Err (''Cannot find sender for track: '' @ ID t @ '', clientID: ''
                       @ clientID (peer w))), w)"
  using assms by (simp add: RemoveTrack_def)

theorem RemoveTrack_unregistered_witness:
  "rtpSenderByTrack (peer (NewPeer ''alice'')) (addr bobTrack) = None \<and>
   RemoveTrack fakePC bobTrack (NewPeer ''alice'') =
     (Some (Err ''Cannot find sender for track: bob-video, clientID: alice''), NewPeer ''alice'')"
  using RemoveTrack_unregistered [of "NewPeer ''alice''" bobTrack fakePC]
  by (simp add: NewPeer_def bobTrack_def)

text \<open>
  C6: \<open>AddTrack t\<close> makes exactly one call on the transport, to add \<open>t\<close>. When the
  transport answers a sender, \<open>AddTrack\<close> returns no error and the sender map is the old
  one with \<open>t\<close> mapped to that sender; when the transport answers an error, \<open>AddTrack\<close>
  returns an error whose message carries the id of \<open>t\<close> and the client id of the Peer.
\<close>

theorem AddTrack_outcome:
  "(\<forall>s. pcAddTrack pc (pcCalls w) t = Inr s \<longrightarrow>
      fst (AddTrack pc t w) = None \<and>
      rtpSenderByTrack (peer (snd (AddTrack pc t w))) = (rtpSenderByTrack (peer w))(addr t \<mapsto> s)) \<and>
   (\<forall>e. pcAddTrack pc (pcCalls w) t = Inl e \<longrightarrow>
      fst (AddTrack pc t w) =
        Some (Err (''Error adding track: '' @ ID t @ '' to peer clientID: '' @ clientID (peer w)))) \<and>
   pcCalls (snd (AddTrack pc t w)) = pcCalls w @ [AddTrackCall t]"
  by (simp add: AddTrack_def Let_def split: sum.split)

theorem AddTrack_outcome_witness:
  "pcAddTrack fakePC (pcCalls (NewPeer ''alice'')) bobTrack = Inr 107 \<and>
   fst (AddTrack fakePC bobTrack (NewPeer ''alice'')) = None \<and>
   rtpSenderByTrack (peer (snd (AddTrack fakePC bobTrack (NewPeer ''alice'')))) 7 = Some 107 \<and>
   pcAddTrack failingPC (pcCalls (NewPeer ''alice'')) bobTrack = Inl (Err ''transport failed'') \<and>
   fst (AddTrack failingPC bobTrack (NewPeer ''alice'')) =
     Some (Err ''Error adding track: bob-video to peer clientID: alice'') \<and>
   pcCalls (snd (AddTrack failingPC bobTrack (NewPeer ''alice''))) =
     [OnICEConnectionStateChangeCall, OnTrackCall, AddTrackCall bobTrack]"
  using AddTrack_outcome [of fakePC "NewPeer ''alice''" bobTrack]
    AddTrack_outcome [of failingPC "NewPeer ''alice''" bobTrack]
  by (simp add: NewPeer_def fakePC_def failingPC_def bobTrack_def)

text \<open>
  C10: whenever \<open>AddTrack t\<close> returns an error, the sender map is exactly the one before
  the call.
\<close>

theorem AddTrack_error_atomic:
  assumes "fst (AddTrack pc t w) \<noteq> None"
  shows "rtpSenderByTrack (peer (snd (AddTrack pc t w))) = rtpSenderByTrack (peer w)"
  using assms by (simp add: AddTrack_def Let_def split: sum.splits)

theorem AddTrack_error_atomic_witness:
  "fst (AddTrack failingPC aliceTrack (snd (AddTrack fakePC bobTrack (NewPeer ''alice'')))) \<noteq> None \<and>
   rtpSenderByTrack (peer (snd (AddTrack failingPC aliceTrack
       (snd (AddTrack fakePC bobTrack (NewPeer ''alice''))))))
     = rtpSenderByTrack (peer (snd (AddTrack fakePC bobTrack (NewPeer ''alice''))))"
  using AddTrack_error_atomic [of failingPC aliceTrack
      "snd (AddTrack fakePC bobTrack (NewPeer ''alice''))"]
  by (simp add: AddTrack_def failingPC_def)

section \<open>The close notification\<close>

lemma handleICE_notified:
  "notified (handleICEConnectionStateChange s w) =
     (if s = ICEConnectionStateClosed \<or> s = ICEConnectionStateDisconnected \<or>
         s = ICEConnectionStateFailed
      then notified w @ [onClose (clientID (peer w))] else notified w)"
  by (simp add: handleICEConnectionStateChange_def Let_def)

lemma closeCount_handleICE:
  "closeCount (handleICEConnectionStateChange s w) =
     (if s = ICEConnectionStateClosed \<or> s = ICEConnectionStateDisconnected \<or>
         s = ICEConnectionStateFailed
      then Suc (closeCount w) else closeCount w)"
  by (simp add: closeCount_def handleICE_notified)

text \<open>
  C2: a sequence of ICE state changes that ends in a terminal state gives the close
  notification exactly once. The handler notifies on every terminal state it is given
  (the source carries a TODO to prevent the second call): on disconnected followed by
  failed, alice's Peer gives the notification twice.
\<close>

theorem onClose_twice:
  "notified (run fakePC (NewPeer ''alice'')
      [ICEConnectionStateChange ICEConnectionStateDisconnected,
       ICEConnectionStateChange ICEConnectionStateFailed])
     = [onClose ''alice'', onClose ''alice''] \<and>
   closeCount (run fakePC (NewPeer ''alice'')
      [ICEConnectionStateChange ICEConnectionStateDisconnected,
       ICEConnectionStateChange ICEConnectionStateFailed]) = 2"
  by (simp add: run_def closeCount_def handleICEConnectionStateChange_def NewPeer_def)

section \<open>Inbound tracks\<close>

lemma startCopyingTrack_fails:
  assumes "pcNewTrack pc (pcCalls w) (PayloadType r) (SSRC r) ''video'' ''pion'' = Inl e"
  shows "startCopyingTrack pc r w =
    (Inl (Err (''startCopyingTrack: error creating new track, trackID: '' @ ID r
               @ '', clientID: '' @ clientID (peer w) @ '', error: '' @ Error e)),
     w\<lparr>logged := logged w @
           [''startCopyingTrack: '' @ ID r @ '' for peer clientID: '' @ clientID (peer w)],
        pcCalls := pcCalls w @ [NewTrackCall (PayloadType r) (SSRC r) ''video'' ''pion'']\<rparr>)"
  using assms by (simp add: startCopyingTrack_def NewTrack_def Let_def)

lemma startCopyingTrack_succeeds:
  assumes "pcNewTrack pc (pcCalls w) (PayloadType r) (SSRC r) ''video'' ''pion'' = Inr (a, i)"
  shows "fst (startCopyingTrack pc r w) =
           Inr \<lparr>addr = a, ID = i, PayloadType = PayloadType r, SSRC = SSRC r,
                kind = ''video'', label = ''pion''\<rparr>"
    and "peer (snd (startCopyingTrack pc r w)) = peer w"
    and "notified (snd (startCopyingTrack pc r w)) = notified w"
    and "relays (snd (startCopyingTrack pc r w)) = relays w @
           [\<lparr>remoteTrack = r,
             localTrack = \<lparr>addr = a, ID = i, PayloadType = PayloadType r, SSRC = SSRC r,
                kind = ''video'', label = ''pion''\<rparr>,
             tickerInterval = rtcpPLIInterval, tickerActive = True,
             copyTask = Running, rtpBuf = replicate 1400 0, trackOps = []\<rparr>]"
  using assms by (simp_all add: startCopyingTrack_def NewTrack_def Let_def)

text \<open>
  C8: when the transport fails to create the local track, the inbound-track handler logs
  the error and stops: the Peer (its registry of local tracks and its sender map) is
  unchanged, \<open>onTrack\<close> is not called and no relay is started. The world differs from the
  one before by the three lines logged and by the one call made on the transport.
\<close>

theorem handleTrack_NewTrack_fails:
  assumes "pcNewTrack pc (pcCalls w) (PayloadType r) (SSRC r) ''video'' ''pion'' = Inl e"
  shows "handleTrack pc r w =
    w\<lparr>logged := logged w @
         [''handleTrack '' @ ID r @ '' for clientID: '' @ clientID (peer w),
          ''startCopyingTrack: '' @ ID r @ '' for peer clientID: '' @ clientID (peer w),
          ''Error copying remote track: startCopyingTrack: error creating new track, trackID: ''
            @ ID r @ '', clientID: '' @ clientID (peer w) @ '', error: '' @ Error e],
       pcCalls := pcCalls w @ [NewTrackCall (PayloadType r) (SSRC r) ''video'' ''pion'']\<rparr> \<and>
    peer (handleTrack pc r w) = peer w \<and>
    Tracks (handleTrack pc r w) = Tracks w \<and>
    notified (handleTrack pc r w) = notified w \<and>
    relays (handleTrack pc r w) = relays w"
proof -
  let ?w0 = "w\<lparr>logged := logged w @
                 [''handleTrack '' @ ID r @ '' for clientID: '' @ clientID (peer w)]\<rparr>"
  have "pcNewTrack pc (pcCalls ?w0) (PayloadType r) (SSRC r) ''video'' ''pion'' = Inl e"
    using assms by simp
  from startCopyingTrack_fails [OF this]
  have eq: "handleTrack pc r w =
    w\<lparr>logged := logged w @
         [''handleTrack '' @ ID r @ '' for clientID: '' @ clientID (peer w),
          ''startCopyingTrack: '' @ ID r @ '' for peer clientID: '' @ clientID (peer w),
          ''Error copying remote track: startCopyingTrack: error creating new track, trackID: ''
            @ ID r @ '', clientID: '' @ clientID (peer w) @ '', error: '' @ Error e],
       pcCalls := pcCalls w @ [NewTrackCall (PayloadType r) (SSRC r) ''video'' ''pion'']\<rparr>"
    by (simp add: handleTrack_def Let_def)
  show ?thesis
    by (simp add: eq Tracks_def)
qed

theorem handleTrack_NewTrack_fails_witness:
  "pcNewTrack failingPC (pcCalls (NewPeer ''alice'')) (PayloadType aliceTrack) (SSRC aliceTrack)
      ''video'' ''pion'' = Inl (Err ''transport failed'') \<and>
   logged (handleTrack failingPC aliceTrack (NewPeer ''alice'')) =
     [''handleTrack remote for clientID: alice'',
      ''startCopyingTrack: remote for peer clientID: alice'',
      ''Error copying remote track: startCopyingTrack: error creating new track, trackID: remote, clientID: alice, error: transport failed''] \<and>
   Tracks (handleTrack failingPC aliceTrack (NewPeer ''alice'')) = [] \<and>
   notified (handleTrack failingPC aliceTrack (NewPeer ''alice'')) = [] \<and>
   relays (handleTrack failingPC aliceTrack (NewPeer ''alice'')) = []"
  using handleTrack_NewTrack_fails [of failingPC "NewPeer ''alice''" aliceTrack "Err ''transport failed''"]
  by (simp add: failingPC_def NewPeer_def aliceTrack_def Tracks_def)

text \<open>
  C7: when the transport creates the local track, the inbound-track handler appends to
  the registry that \<open>Tracks\<close> returns exactly one track, with the payload type and the
  SSRC of the remote track, kind video and label pion; the same track is given to
  \<open>onTrack\<close> and is the local track of the relay started. The scenario of the
  specification, SSRC 1111 and payload type 96, is worked out after the theorem.
\<close>

theorem handleTrack_local_track:
  assumes "pcNewTrack pc (pcCalls w) (PayloadType r) (SSRC r) ''video'' ''pion'' = Inr (a, i)"
  shows "Tracks (handleTrack pc r w) =
           Tracks w @ [\<lparr>addr = a, ID = i, PayloadType = PayloadType r, SSRC = SSRC r,
                        kind = ''video'', label = ''pion''\<rparr>] \<and>
         notified (handleTrack pc r w) =
           notified w @ [onTrack (clientID (peer w))
                       \<lparr>addr = a, ID = i, PayloadType = PayloadType r, SSRC = SSRC r,
                        kind = ''video'', label = ''pion''\<rparr>] \<and>
         map localTrack (relays (handleTrack pc r w)) =
           map localTrack (relays w) @ [\<lparr>addr = a, ID = i, PayloadType = PayloadType r,
                        SSRC = SSRC r, kind = ''video'', label = ''pion''\<rparr>]"
  using assms
  by (simp add: handleTrack_def startCopyingTrack_def NewTrack_def Let_def Tracks_def)

theorem handleTrack_local_track_witness:
  "pcNewTrack fakePC (pcCalls (NewPeer ''alice'')) (PayloadType aliceTrack) (SSRC aliceTrack)
      ''video'' ''pion'' = Inr (2, ''local'') \<and>
   Tracks (handleTrack fakePC aliceTrack (NewPeer ''alice'')) =
     [\<lparr>addr = 2, ID = ''local'', PayloadType = 96, SSRC = 1111, kind = ''video'',
       label = ''pion''\<rparr>]"
  using handleTrack_local_track [of fakePC "NewPeer ''alice''" aliceTrack 2 "''local''"]
  by (simp add: fakePC_def NewPeer_def aliceTrack_def Tracks_def)

section \<open>The copy task\<close>

lemma copyLoop_continues:
  assumes "length pkt \<le> length (rtpBuf r)" and "res = None \<or> res = Some ErrClosedPipe"
  shows "copyLoop cid (ReadGives pkt res # rest) r =
           copyLoop cid rest
             (r\<lparr>rtpBuf := pkt @ drop (length pkt) (rtpBuf r),
                trackOps := trackOps r @ [ReadOp (Inr pkt), WriteOp pkt res]\<rparr>)"
  using assms by (auto simp: Let_def)

lemma copyLoop_read_fails:
  "copyLoop cid (ReadFails e # rest) r =
     (r\<lparr>copyTask := Returned, tickerActive := False,
        trackOps := trackOps r @ [ReadOp (Inl e)]\<rparr>,
      [''Error reading from remote track: '' @ ID (remoteTrack r) @ '' for clientID: ''
       @ cid @ '': '' @ Error e])"
  by (simp add: returned_def)

lemma copyLoop_write_fails:
  assumes "length pkt \<le> length (rtpBuf r)" and "e \<noteq> ErrClosedPipe"
  shows "copyLoop cid (ReadGives pkt (Some e) # rest) r =
     (r\<lparr>copyTask := Returned, tickerActive := False,
        rtpBuf := pkt @ drop (length pkt) (rtpBuf r),
        trackOps := trackOps r @ [ReadOp (Inr pkt), WriteOp pkt (Some e)]\<rparr>,
      [''Error writing to local track: '' @ ID (localTrack r) @ '' for clientID: ''
       @ cid @ '': '' @ Error e])"
  using assms by (simp add: returned_def Let_def)

lemma copyLoop_keeps:
  "length (rtpBuf (fst (copyLoop cid ins r))) = length (rtpBuf r) \<and>
   tickerInterval (fst (copyLoop cid ins r)) = tickerInterval r \<and>
   remoteTrack (fst (copyLoop cid ins r)) = remoteTrack r \<and>
   localTrack (fst (copyLoop cid ins r)) = localTrack r"
proof (induction cid ins r rule: copyLoop.induct)
  case (1 cid r)
  show ?case by simp
next
  case (2 cid err rest r)
  show ?case by (simp add: returned_def)
next
  case (3 cid pkt res rest r)
  then show ?case
    by (cases res) (auto simp: Let_def returned_def panicked_def)
qed

lemma writes_append: "writes (xs @ ys) = writes xs @ writes ys"
  by (induction xs rule: writes.induct) simp_all

lemma delivered_append: "delivered (xs @ ys) = delivered xs @ delivered ys"
  by (induction xs rule: delivered.induct) simp_all

lemma copyLoop_all_ok:
  assumes "\<forall>p \<in> set pkts. length p \<le> length (rtpBuf r)"
  shows "trackOps (fst (copyLoop cid (map (\<lambda>p. ReadGives p None) pkts) r)) =
           trackOps r @ concat (map (\<lambda>p. [ReadOp (Inr p), WriteOp p None]) pkts) \<and>
         copyTask (fst (copyLoop cid (map (\<lambda>p. ReadGives p None) pkts) r)) = copyTask r \<and>
         tickerActive (fst (copyLoop cid (map (\<lambda>p. ReadGives p None) pkts) r)) = tickerActive r \<and>
         snd (copyLoop cid (map (\<lambda>p. ReadGives p None) pkts) r) = []"
  using assms
proof (induction pkts arbitrary: r)
  case Nil
  show ?case by simp
next
  case (Cons p pkts)
  let ?r = "r\<lparr>rtpBuf := p @ drop (length p) (rtpBuf r),
               trackOps := trackOps r @ [ReadOp (Inr p), WriteOp p None]\<rparr>"
  from Cons.prems have len: "length p \<le> length (rtpBuf r)"
    by simp
  then have "length (rtpBuf ?r) = length (rtpBuf r)"
    by simp
  with Cons.prems have "\<forall>q \<in> set pkts. length q \<le> length (rtpBuf ?r)"
    by simp
  from Cons.IH [OF this] copyLoop_continues [OF len, of None cid "map (\<lambda>p. ReadGives p None) pkts"]
  show ?case by simp
qed

text \<open>
  C3: when the copy task reads \<open>N\<close> packets from the remote track, each fitting the
  buffer, and every write to the local track succeeds, the task does exactly these reads
  and writes, alternating: each packet is written, byte for byte, before the next one is
  read. The writes made, and the packets the local track took, are the \<open>N\<close> packets in
  the order read; the one buffer keeps its size, and the task and its ticker go on.
\<close>

theorem copy_law:
  assumes "\<forall>p \<in> set pkts. length p \<le> length (rtpBuf r)"
  shows "trackOps (fst (copyLoop cid (map (\<lambda>p. ReadGives p None) pkts) r)) =
           trackOps r @ concat (map (\<lambda>p. [ReadOp (Inr p), WriteOp p None]) pkts) \<and>
         writes (trackOps (fst (copyLoop cid (map (\<lambda>p. ReadGives p None) pkts) r))) =
           writes (trackOps r) @ pkts \<and>
         delivered (trackOps (fst (copyLoop cid (map (\<lambda>p. ReadGives p None) pkts) r))) =
           delivered (trackOps r) @ pkts \<and>
         length (rtpBuf (fst (copyLoop cid (map (\<lambda>p. ReadGives p None) pkts) r))) =
           length (rtpBuf r) \<and>
         copyTask (fst (copyLoop cid (map (\<lambda>p. ReadGives p None) pkts) r)) = copyTask r \<and>
         tickerActive (fst (copyLoop cid (map (\<lambda>p. ReadGives p None) pkts) r)) = tickerActive r"
proof -
  let ?r' = "fst (copyLoop cid (map (\<lambda>p. ReadGives p None) pkts) r)"
  have w: "writes (concat (map (\<lambda>p. [ReadOp (Inr p), WriteOp p None]) ps)) = ps" for ps
    by (induction ps) simp_all
  have d: "delivered (concat (map (\<lambda>p. [ReadOp (Inr p), WriteOp p None]) ps)) = ps" for ps
    by (induction ps) simp_all
  from copyLoop_all_ok [OF assms, of cid]
  have ops: "trackOps ?r' = trackOps r @ concat (map (\<lambda>p. [ReadOp (Inr p), WriteOp p None]) pkts)"
    and st: "copyTask ?r' = copyTask r" "tickerActive ?r' = tickerActive r"
    by simp_all
  have "writes (trackOps ?r') = writes (trackOps r) @ pkts"
    by (simp add: ops writes_append w)
  moreover have "delivered (trackOps ?r') = delivered (trackOps r) @ pkts"
    by (simp add: ops delivered_append d)
  moreover have "length (rtpBuf ?r') = length (rtpBuf r)"
    using copyLoop_keeps [of cid "map (\<lambda>p. ReadGives p None) pkts" r] by simp
  ultimately show ?thesis
    using ops st by simp
qed

lemma aliceWorld_relays:
  "relays aliceWorld =
     [\<lparr>remoteTrack = aliceTrack,
       localTrack = \<lparr>addr = 2, ID = ''local'', PayloadType = 96, SSRC = 1111,
                     kind = ''video'', label = ''pion''\<rparr>,
       tickerInterval = rtcpPLIInterval, tickerActive = True, copyTask = Running,
       rtpBuf = replicate 1400 0, trackOps = []\<rparr>]"
  by (simp add: aliceWorld_def handleTrack_def startCopyingTrack_def NewTrack_def Let_def
      NewPeer_def fakePC_def aliceTrack_def)

lemma aliceWorld_rest:
  "pcCalls aliceWorld =
     [OnICEConnectionStateChangeCall, OnTrackCall, NewTrackCall 96 1111 ''video'' ''pion'']"
  "clientID (peer aliceWorld) = ''alice''"
  "logged aliceWorld =
     [''handleTrack remote for clientID: alice'',
      ''startCopyingTrack: remote for peer clientID: alice'',
      ''startCopyingTrack: remote track remote to new local track: local for clientID: alice'']"
  by (simp_all add: aliceWorld_def handleTrack_def startCopyingTrack_def NewTrack_def Let_def
      NewPeer_def fakePC_def aliceTrack_def)

theorem copy_law_witness:
  "list_all (\<lambda>p. length p \<le> length (rtpBuf (relays aliceWorld ! 0)))
     [[1, 2, 3], [], [4, 5, 6, 7]] \<and>
   trackOps (fst (copyLoop ''alice''
       (map (\<lambda>p. ReadGives p None) [[1, 2, 3], [], [4, 5, 6, 7]]) (relays aliceWorld ! 0))) =
     [ReadOp (Inr [1, 2, 3]), WriteOp [1, 2, 3] None, ReadOp (Inr []), WriteOp [] None,
      ReadOp (Inr [4, 5, 6, 7]), WriteOp [4, 5, 6, 7] None] \<and>
   delivered (trackOps (fst (copyLoop ''alice''
       (map (\<lambda>p. ReadGives p None) [[1, 2, 3], [], [4, 5, 6, 7]]) (relays aliceWorld ! 0)))) =
     [[1, 2, 3], [], [4, 5, 6, 7]] \<and>
   length (rtpBuf (fst (copyLoop ''alice''
       (map (\<lambda>p. ReadGives p None) [[1, 2, 3], [], [4, 5, 6, 7]]) (relays aliceWorld ! 0)))) =
     1400"
  using copy_law [of "[[1, 2, 3], [], [4, 5, 6, 7]]" "relays aliceWorld ! 0" "''alice''"]
  by (simp add: aliceWorld_relays)

section \<open>Failures of the copy task\<close>

lemma step_CopyAnswers_relay:
  assumes "n < length (relays w)" and "copyTask (relays w ! n) = Running"
  shows "relays (step pc w (CopyAnswers n ins)) ! n =
           fst (copyLoop (clientID (peer w)) ins (relays w ! n))"
    and "length (relays (step pc w (CopyAnswers n ins))) = length (relays w)"
  using assms by (simp_all split: prod.split)

lemma step_CopyAnswers:
  assumes "n < length (relays w)" and "copyTask (relays w ! n) = Running"
  shows "step pc w (CopyAnswers n ins) =
     w\<lparr>relays := (relays w)[n := fst (copyLoop (clientID (peer w)) ins (relays w ! n))],
       logged := logged w @ snd (copyLoop (clientID (peer w)) ins (relays w ! n))\<rparr>"
  using assms by (simp split: prod.split)

lemma step_idle_ticker:
  assumes "\<not> tickerActive (relays w ! n)"
  shows "step pc w (TickerFires n) = w"
  using assms by simp

lemma step_idle_copy:
  assumes "copyTask (relays w ! n) \<noteq> Running"
  shows "step pc w (CopyAnswers n ins) = w"
  using assms by simp

text \<open>
  C4: for a running copy task and a packet that fits the buffer. A write that fails with
  \<open>ErrClosedPipe\<close> is tolerated: the loop goes on with the next answer, the task is
  still running and the ticker is as it was. A failed read (whatever the error) and a
  write failing with any other error make the task return and stop the ticker, after
  which a firing of the ticker changes nothing: no further PLI is written.
\<close>

theorem copy_task_failures:
  assumes "n < length (relays w)" and "copyTask (relays w ! n) = Running"
    and "length pkt \<le> length (rtpBuf (relays w ! n))" and "e \<noteq> ErrClosedPipe"
  shows "copyLoop cid (ReadGives pkt (Some ErrClosedPipe) # rest) (relays w ! n) =
           copyLoop cid rest
             ((relays w ! n)\<lparr>rtpBuf := pkt @ drop (length pkt) (rtpBuf (relays w ! n)),
                trackOps := trackOps (relays w ! n) @
                  [ReadOp (Inr pkt), WriteOp pkt (Some ErrClosedPipe)]\<rparr>) \<and>
         copyTask (relays (step pc w (CopyAnswers n [ReadGives pkt (Some ErrClosedPipe)])) ! n)
           = Running \<and>
         tickerActive (relays (step pc w (CopyAnswers n [ReadGives pkt (Some ErrClosedPipe)])) ! n)
           = tickerActive (relays w ! n) \<and>
         copyTask (relays (step pc w (CopyAnswers n (ReadFails e' # rest))) ! n) = Returned \<and>
         \<not> tickerActive (relays (step pc w (CopyAnswers n (ReadFails e' # rest))) ! n) \<and>
         step pc (step pc w (CopyAnswers n (ReadFails e' # rest))) (TickerFires n)
           = step pc w (CopyAnswers n (ReadFails e' # rest)) \<and>
         copyTask (relays (step pc w (CopyAnswers n (ReadGives pkt (Some e) # rest))) ! n)
           = Returned \<and>
         \<not> tickerActive (relays (step pc w (CopyAnswers n (ReadGives pkt (Some e) # rest))) ! n) \<and>
         step pc (step pc w (CopyAnswers n (ReadGives pkt (Some e) # rest))) (TickerFires n)
           = step pc w (CopyAnswers n (ReadGives pkt (Some e) # rest))"
proof -
  let ?r = "relays w ! n" and ?cid = "clientID (peer w)"
  note rel = step_CopyAnswers_relay [OF assms(1,2)]
  have tolerated: "copyLoop cid (ReadGives pkt (Some ErrClosedPipe) # rest) ?r =
           copyLoop cid rest
             (?r\<lparr>rtpBuf := pkt @ drop (length pkt) (rtpBuf ?r),
                trackOps := trackOps ?r @
                  [ReadOp (Inr pkt), WriteOp pkt (Some ErrClosedPipe)]\<rparr>)" for cid rest
    using copyLoop_continues [OF assms(3), of "Some ErrClosedPipe"] by simp
  have goes_on:
    "copyTask (relays (step pc w (CopyAnswers n [ReadGives pkt (Some ErrClosedPipe)])) ! n)
       = Running"
    "tickerActive (relays (step pc w (CopyAnswers n [ReadGives pkt (Some ErrClosedPipe)])) ! n)
       = tickerActive ?r"
    by (simp_all only: rel tolerated) (simp_all add: assms(2))
  have rd: "copyTask (relays (step pc w (CopyAnswers n (ReadFails e' # rest))) ! n) = Returned"
    "\<not> tickerActive (relays (step pc w (CopyAnswers n (ReadFails e' # rest))) ! n)"
    by (simp_all only: rel copyLoop_read_fails) simp_all
  have wr: "copyTask (relays (step pc w (CopyAnswers n (ReadGives pkt (Some e) # rest))) ! n)
              = Returned"
    "\<not> tickerActive (relays (step pc w (CopyAnswers n (ReadGives pkt (Some e) # rest))) ! n)"
    by (simp_all only: rel copyLoop_write_fails [OF assms(3,4)]) simp_all
  show ?thesis
    using tolerated goes_on rd wr step_idle_ticker [OF rd(2)] step_idle_ticker [OF wr(2)]
    by blast
qed

theorem copy_task_failures_witness:
  "0 < length (relays aliceWorld) \<and> copyTask (relays aliceWorld ! 0) = Running \<and>
   length [9, 8] \<le> length (rtpBuf (relays aliceWorld ! 0)) \<and> Err ''short write'' \<noteq> ErrClosedPipe \<and>
   copyTask (relays (step fakePC aliceWorld
       (CopyAnswers 0 [ReadGives [9, 8] (Some ErrClosedPipe)])) ! 0) = Running \<and>
   tickerActive (relays (step fakePC aliceWorld
       (CopyAnswers 0 [ReadGives [9, 8] (Some ErrClosedPipe)])) ! 0) \<and>
   copyTask (relays (step fakePC aliceWorld
       (CopyAnswers 0 [ReadFails (Err ''EOF''), ReadGives [1] None])) ! 0) = Returned \<and>
   \<not> tickerActive (relays (step fakePC aliceWorld
       (CopyAnswers 0 [ReadFails (Err ''EOF''), ReadGives [1] None])) ! 0) \<and>
   pcCalls (step fakePC (step fakePC aliceWorld
       (CopyAnswers 0 [ReadFails (Err ''EOF''), ReadGives [1] None])) (TickerFires 0)) =
     pcCalls aliceWorld \<and>
   copyTask (relays (step fakePC aliceWorld
       (CopyAnswers 0 [ReadGives [9, 8] (Some (Err ''short write'')), ReadGives [1] None])) ! 0)
     = Returned \<and>
   \<not> tickerActive (relays (step fakePC aliceWorld
       (CopyAnswers 0 [ReadGives [9, 8] (Some (Err ''short write'')), ReadGives [1] None])) ! 0)"
  using copy_task_failures [of 0 aliceWorld "[9, 8]" "Err ''short write''" "''alice''"
      "[ReadGives [1] None]" fakePC "Err ''EOF''"]
  by (simp add: aliceWorld_relays aliceWorld_rest returned_def)


section \<open>The periodic task\<close>

lemma step_TickerFires:
  assumes "n < length (relays w)" and "tickerActive (relays w ! n)"
  shows "step pc w (TickerFires n) =
     w\<lparr>pcCalls := pcCalls w @
          [WriteRTCPCall [PictureLossIndication 0 (SSRC (remoteTrack (relays w ! n)))]],
       logged := logged w @
          (case pcWriteRTCP pc (pcCalls w)
                  [PictureLossIndication 0 (SSRC (remoteTrack (relays w ! n)))] of
             None \<Rightarrow> []
           | Some err \<Rightarrow>
               [''Error sending rtcp PLI for local track: '' @ ID (localTrack (relays w ! n))
                @ '' for clientID: '' @ clientID (peer w) @ '': '' @ Error err])\<rparr>"
  using assms by (simp add: tick_def Let_def)

lemma relayInv_NewPeer: "relayInv (NewPeer cid)"
  by (simp add: relayInv_def NewPeer_def)

lemma relayInv_AddTrack: "relayInv w \<Longrightarrow> relayInv (snd (AddTrack pc t w))"
  by (simp add: relayInv_def AddTrack_def Let_def split: sum.split)

lemma relayInv_RemoveTrack: "relayInv w \<Longrightarrow> relayInv (snd (RemoveTrack pc t w))"
  by (simp add: relayInv_def RemoveTrack_def split: option.split)

lemma relayInv_handleICE: "relayInv w \<Longrightarrow> relayInv (handleICEConnectionStateChange s w)"
  by (simp add: relayInv_def handleICEConnectionStateChange_def Let_def)

lemma relayInv_handleTrack: "relayInv w \<Longrightarrow> relayInv (handleTrack pc t w)"
  by (simp add: relayInv_def handleTrack_def startCopyingTrack_def NewTrack_def Let_def
      split: sum.split prod.split)

lemma relayInv_tick:
  assumes "relayInv w"
  shows "relayInv (step pc w (TickerFires n))"
proof (cases "n < length (relays w) \<and> tickerActive (relays w ! n)")
  case True
  then show ?thesis
    using assms by (simp add: step_TickerFires relayInv_def del: step.simps)
next
  case False
  then show ?thesis
    using assms by auto
qed

lemma relayInv_copy:
  assumes "relayInv w"
  shows "relayInv (step pc w (CopyAnswers n ins))"
proof (cases "n < length (relays w) \<and> copyTask (relays w ! n) = Running")
  case True
  let ?r = "fst (copyLoop (clientID (peer w)) ins (relays w ! n))"
  from True assms have "tickerInterval (relays w ! n) = rtcpPLIInterval"
    and "length (rtpBuf (relays w ! n)) = 1400"
    by (simp_all add: relayInv_def list_all_length)
  then have new: "tickerInterval ?r = rtcpPLIInterval \<and> length (rtpBuf ?r) = 1400"
    using copyLoop_keeps [of "clientID (peer w)" ins "relays w ! n"] by simp
  have "set ((relays w)[n := ?r]) \<subseteq> insert ?r (set (relays w))"
    by (rule set_update_subset_insert)
  with new assms
  have "list_all (\<lambda>r. tickerInterval r = rtcpPLIInterval \<and> length (rtpBuf r) = 1400)
          ((relays w)[n := ?r])"
    unfolding relayInv_def list_all_iff by blast
  with True assms show ?thesis
    by (simp add: relayInv_def step_CopyAnswers del: step.simps)
next
  case False
  then show ?thesis
    using assms by auto
qed

lemma relayInv_step: "relayInv w \<Longrightarrow> relayInv (step pc w ev)"
  by (cases ev)
    (simp_all add: relayInv_AddTrack relayInv_RemoveTrack relayInv_handleICE
      relayInv_handleTrack relayInv_tick relayInv_copy del: step.simps(5,6))

lemma relayInv_run: "relayInv w \<Longrightarrow> relayInv (run pc w evs)"
  unfolding run_def by (induction evs arbitrary: w) (simp_all add: relayInv_step)

text \<open>
  C9: the interval of the ticker is three seconds, for every relay of every world reached
  from a new Peer. A firing of an active ticker makes one call on the transport, writing
  exactly one PLI whose media SSRC is the SSRC of the relay's remote track; the relays
  are unchanged by it, so the ticker stays active whether the write failed or not, and a
  failed write adds one line to the log. In every world reached from a new Peer, each
  RTCP write made on the transport wrote one packet, a PLI.
\<close>

theorem keyframe_task:
  "rtcpPLIInterval = 3000000000 \<and>
   list_all (\<lambda>r. tickerInterval r = rtcpPLIInterval) (relays (run pc (NewPeer cid) evs)) \<and>
   (n < length (relays w) \<and> tickerActive (relays w ! n) \<longrightarrow>
      pcCalls (step pc w (TickerFires n)) = pcCalls w @
        [WriteRTCPCall [PictureLossIndication 0 (SSRC (remoteTrack (relays w ! n)))]] \<and>
      relays (step pc w (TickerFires n)) = relays w \<and>
      logged (step pc w (TickerFires n)) = logged w @
        (case pcWriteRTCP pc (pcCalls w)
                [PictureLossIndication 0 (SSRC (remoteTrack (relays w ! n)))] of
           None \<Rightarrow> []
         | Some err \<Rightarrow>
             [''Error sending rtcp PLI for local track: '' @ ID (localTrack (relays w ! n))
              @ '' for clientID: '' @ clientID (peer w) @ '': '' @ Error err])) \<and>
   list_all onePLI (pcCalls (run pc (NewPeer cid) evs))"
proof -
  have "relayInv (run pc (NewPeer cid) evs)"
    by (rule relayInv_run [OF relayInv_NewPeer])
  then have inv: "list_all onePLI (pcCalls (run pc (NewPeer cid) evs))"
    "list_all (\<lambda>r. tickerInterval r = rtcpPLIInterval) (relays (run pc (NewPeer cid) evs))"
    by (simp_all add: relayInv_def list_all_iff)
  have "rtcpPLIInterval = 3000000000"
    by (simp add: rtcpPLIInterval_def Second_def)
  with inv show ?thesis
    by (simp add: step_TickerFires del: step.simps)
qed

theorem keyframe_task_witness:
  "0 < length (relays aliceWorld) \<and> tickerActive (relays aliceWorld ! 0) \<and>
   pcCalls (step failingPC aliceWorld (TickerFires 0)) =
     [OnICEConnectionStateChangeCall, OnTrackCall, NewTrackCall 96 1111 ''video'' ''pion'',
      WriteRTCPCall [PictureLossIndication 0 1111]] \<and>
   tickerActive (relays (step failingPC aliceWorld (TickerFires 0)) ! 0) \<and>
   logged (step failingPC aliceWorld (TickerFires 0)) = logged aliceWorld @
     [''Error sending rtcp PLI for local track: local for clientID: alice: transport failed''] \<and>
   pcCalls (step failingPC (step failingPC aliceWorld (TickerFires 0)) (TickerFires 0)) =
     [OnICEConnectionStateChangeCall, OnTrackCall, NewTrackCall 96 1111 ''video'' ''pion'',
      WriteRTCPCall [PictureLossIndication 0 1111], WriteRTCPCall [PictureLossIndication 0 1111]]"
  using keyframe_task [of failingPC "''alice''" "[]" 0 aliceWorld]
    keyframe_task [of failingPC "''alice''" "[]" 0 "step failingPC aliceWorld (TickerFires 0)"]
  by (simp add: aliceWorld_relays aliceWorld_rest failingPC_def aliceTrack_def tick_def)

end
